theory Spec2Isabelle
  imports Main
begin

section \<open>Python values and exceptions\<close>

text \<open>
  The module is read as a program of Python 3 (3.11 or later). An exception of the
  source is a value: every function of the parser that can raise
  returns \<open>py_error + 'a\<close>, with \<open>Inl\<close> the exception. Nothing in
  \<^verbatim>\<open>dmarc_parser.py\<close> catches an exception except the
  \<^verbatim>\<open>except socket.herror\<close> of \<^verbatim>\<open>_lookup_ip\<close>, so an
  \<open>Inl\<close> travels unchanged to the caller.
\<close>

datatype py_error =
    AttributeError      \<comment> \<open>attribute access on \<^verbatim>\<open>None\<close>\<close>
  | AssertionError      \<comment> \<open>a failed \<^verbatim>\<open>assert\<close>\<close>
  | ValueError          \<comment> \<open>\<^verbatim>\<open>int()\<close> of a string that is no integer, a date out of range\<close>
  | SocketGaierror      \<comment> \<open>\<^verbatim>\<open>socket.gaierror\<close>\<close>
  | SocketTimeout       \<comment> \<open>\<^verbatim>\<open>socket.timeout\<close>\<close>
  | FileNotFoundError
  | IsADirectoryError
  | BadZipFile
  | BadGzipFile
  | KeyError
  | UnpicklingError
  | UnicodeDecodeError  \<comment> \<open>bytes read through a text file that are no text\<close>

definition py_bind :: "py_error + 'a \<Rightarrow> ('a \<Rightarrow> py_error + 'b) \<Rightarrow> py_error + 'b" where
  "py_bind m f = (case m of Inl e \<Rightarrow> Inl e | Inr x \<Rightarrow> f x)"

section \<open>Strings\<close>

text \<open>
  A string is a list of characters of HOL, that is of code points below 256: the
  characters of Unicode above them are not represented.
\<close>

definition endswith :: "string \<Rightarrow> string \<Rightarrow> bool" where
  "endswith s suf = (length suf \<le> length s \<and> drop (length s - length suf) s = suf)"

definition startswith :: "string \<Rightarrow> string \<Rightarrow> bool" where
  "startswith s pre = (take (length pre) s = pre)"

text \<open>\<^verbatim>\<open>s.split(sep)\<close> for a one-character separator: never an empty list.\<close>

fun split_on :: "char \<Rightarrow> string \<Rightarrow> string list" where
  "split_on sep [] = [[]]"
| "split_on sep (c # cs) =
     (if c = sep then [] # split_on sep cs
      else (case split_on sep cs of
              [] \<Rightarrow> [[c]]
            | w # ws \<Rightarrow> (c # w) # ws))"

text \<open>
  \<^verbatim>\<open>s.replace(old, new)\<close>: every non-overlapping occurrence of \<open>old\<close>,
  found from the left, is replaced. (With an empty \<open>old\<close> Python puts \<open>new\<close>
  around every character.)
\<close>

function py_replace :: "string \<Rightarrow> string \<Rightarrow> string \<Rightarrow> string" where
  "py_replace old new s =
     (if old = [] then new @ concat (map (\<lambda>c. c # new) s)
      else if s = [] then []
      else if startswith s old then new @ py_replace old new (drop (length old) s)
      else hd s # py_replace old new (tl s))"
  by pat_completeness auto
termination
  by (relation "measure (\<lambda>(old, new, s). length s)") auto

declare py_replace.simps [simp del]

text \<open>
  \<^verbatim>\<open>int(s)\<close> on a string: white space around the number is ignored, one sign
  is allowed, and the digits may be grouped by single underscores. White space is what
  \<^verbatim>\<open>str.isspace\<close> accepts; below 256 these are the characters 9 to 13,
  28 to 32, 133 (next line) and 160 (no-break space). The decimal digits below 256 are
  "0" to "9". A number of more than \<^verbatim>\<open>sys.get_int_max_str_digits()\<close> digits,
  4300 unless the interpreter is configured otherwise, is refused with ValueError;
  underscores and the sign do not count.
\<close>

definition py_isspace :: "char \<Rightarrow> bool" where
  "py_isspace c =
     (c \<in> set [CHR 0x09, CHR 0x0A, CHR 0x0B, CHR 0x0C, CHR 0x0D,
                CHR 0x1C, CHR 0x1D, CHR 0x1E, CHR 0x1F, CHR 0x20, CHR 0x85, CHR 0xA0])"

definition py_strip :: "string \<Rightarrow> string" where
  "py_strip s = rev (dropWhile py_isspace (rev (dropWhile py_isspace s)))"

definition is_digit :: "char \<Rightarrow> bool" where
  "is_digit c = (48 \<le> (of_char c :: nat) \<and> (of_char c :: nat) \<le> 57)"

definition digit_val :: "char \<Rightarrow> int" where
  "digit_val c = int (of_char c) - 48"

fun digits_ok :: "string \<Rightarrow> bool" where
  "digits_ok [] = False"
| "digits_ok [c] = is_digit c"
| "digits_ok (c # d # ds) =
     (is_digit c \<and> (if d = CHR ''_'' then digits_ok ds else digits_ok (d # ds)))"

definition digits_val :: "string \<Rightarrow> int" where
  "digits_val ds = foldl (\<lambda>acc c. 10 * acc + digit_val c) 0 (filter is_digit ds)"

definition int_max_str_digits :: nat where
  "int_max_str_digits = 4300"

definition py_int :: "string \<Rightarrow> py_error + int" where
  "py_int s =
     (let t = py_strip s;
          (neg, ds) = (case t of
                         [] \<Rightarrow> (False, [])
                       | c # cs \<Rightarrow> if c = CHR ''-'' then (True, cs)
                                   else if c = CHR ''+'' then (False, cs)
                                   else (False, t))
      in if digits_ok ds \<and> length (filter is_digit ds) \<le> int_max_str_digits
         then Inr (if neg then - digits_val ds else digits_val ds)
         else Inl ValueError)"

section \<open>The XML document as BeautifulSoup presents it\<close>

text \<open>
  A parsed document is a tree of tags and strings. \<^verbatim>\<open>tag.find(name)\<close>, and the
  attribute form \<^verbatim>\<open>tag.name\<close> that the source uses almost everywhere, return the
  first tag of that name among all descendants in document order, or \<^verbatim>\<open>None\<close>;
  \<^verbatim>\<open>tag.find_all(name)\<close> returns all of them; \<^verbatim>\<open>tag.text\<close> is the
  concatenation of all strings below the tag.
\<close>

datatype xml = Tag string "xml list" | NavigableString string

fun descendants :: "xml \<Rightarrow> xml list" where
  "descendants (Tag n cs) = concat (map (\<lambda>c. c # descendants c) cs)"
| "descendants (NavigableString s) = []"

fun is_tag :: "string \<Rightarrow> xml \<Rightarrow> bool" where
  "is_tag name (Tag n cs) = (n = name)"
| "is_tag name (NavigableString s) = False"

definition find_all :: "string \<Rightarrow> xml \<Rightarrow> xml list" where
  "find_all name t = filter (is_tag name) (descendants t)"

definition find :: "string \<Rightarrow> xml \<Rightarrow> xml option" where
  "find name t = (case find_all name t of [] \<Rightarrow> None | x # xs \<Rightarrow> Some x)"

fun get_text :: "xml \<Rightarrow> string" where
  "get_text (Tag n cs) = concat (map get_text cs)"
| "get_text (NavigableString s) = s"

text \<open>
  \<^verbatim>\<open>x.name\<close> where \<open>x\<close> may be \<^verbatim>\<open>None\<close>, and
  \<^verbatim>\<open>str(x.text)\<close> likewise: on \<^verbatim>\<open>None\<close> both raise AttributeError.
\<close>

definition attr :: "string \<Rightarrow> xml option \<Rightarrow> py_error + xml option" where
  "attr name x = (case x of None \<Rightarrow> Inl AttributeError | Some t \<Rightarrow> Inr (find name t))"

definition attr_find_all :: "string \<Rightarrow> xml option \<Rightarrow> py_error + xml list" where
  "attr_find_all name x = (case x of None \<Rightarrow> Inl AttributeError | Some t \<Rightarrow> Inr (find_all name t))"

definition str_text :: "xml option \<Rightarrow> py_error + string" where
  "str_text x = (case x of None \<Rightarrow> Inl AttributeError | Some t \<Rightarrow> Inr (get_text t))"

section \<open>The hostname resolver\<close>

text \<open>
  \<^verbatim>\<open>_rdns_records\<close> is the module's global dictionary. The network is a
  parameter: what \<^verbatim>\<open>socket.gethostbyaddr\<close> does for an address. The state
  also logs every call made to it, in order.
\<close>

datatype dns_outcome = Resolved string | Herror | Gaierror | Timeout

record resolver =
  rdns_records :: "string \<rightharpoonup> string"
  lookups :: "string list"

definition lookup_ip ::
  "(string \<Rightarrow> dns_outcome) \<Rightarrow> resolver \<Rightarrow> string \<Rightarrow> py_error + (string option \<times> resolver)" where
  "lookup_ip gethostbyaddr st ip_address =
     (case rdns_records st ip_address of
        None \<Rightarrow>
          (let st1 = st\<lparr>lookups := lookups st @ [ip_address]\<rparr>
           in case gethostbyaddr ip_address of
                Resolved hostname \<Rightarrow>
                  Inr (Some hostname,
                       st1\<lparr>rdns_records := (rdns_records st1)(ip_address \<mapsto> hostname)\<rparr>)
              | Herror \<Rightarrow> Inr (None, st1)
              | Gaierror \<Rightarrow> Inl SocketGaierror
              | Timeout \<Rightarrow> Inl SocketTimeout)
      | Some hostname \<Rightarrow> Inr (Some hostname, st))"

section \<open>Records of a report\<close>

record spf_result =
  spf_domain :: string
  spf_result :: string

record dkim_signature =
  dkim_result :: string
  dkim_domain :: string
  dkim_selector :: "string option"
  dkim_human_result :: "string option"

record DMARCRecord =
  ip :: string
  host :: "string option"
  disposition :: string
  reason :: "string option"
  spf_pass :: "bool option"
  dkim_pass :: "bool option"
  header_from :: "string option"
  envelope_from :: "string option"
  count :: int
  spf_results :: "spf_result list"
  dkim_signatures :: "dkim_signature list"

text \<open>Lines 30 to 32: the policy result of SPF, left \<^verbatim>\<open>None\<close> when there is none.\<close>

definition spf_flag :: "xml option \<Rightarrow> py_error + bool option" where
  "spf_flag x =
     (case x of
        None \<Rightarrow> Inr None
      | Some t \<Rightarrow>
          if get_text t \<in> set [''pass'', ''fail''] then Inr (Some (get_text t = ''pass''))
          else Inl AssertionError)"

text \<open>Lines 33 to 38: the policy result of DKIM, \<^verbatim>\<open>False\<close> when there is none.\<close>

definition dkim_flag :: "xml option \<Rightarrow> py_error + bool option" where
  "dkim_flag x =
     (case x of
        None \<Rightarrow> Inr (Some False)
      | Some t \<Rightarrow>
          if get_text t \<in> set [''pass'', ''fail''] then Inr (Some (get_text t = ''pass''))
          else Inl AssertionError)"

text \<open>Lines 39 and 40.\<close>

definition reason_type :: "xml option \<Rightarrow> py_error + string option" where
  "reason_type policy_evaluated =
     py_bind (attr ''reason'' policy_evaluated) (\<lambda>r.
       case r of
         None \<Rightarrow> Inr None
       | Some r' \<Rightarrow> (case find ''type'' r' of None \<Rightarrow> Inr None | Some t \<Rightarrow> Inr (Some (get_text t))))"

text \<open>
  Lines 42 and 43: \<^verbatim>\<open>str(i.f.text) if i.f else None\<close>. A tag is always true,
  so the test is for \<^verbatim>\<open>None\<close>; \<open>i\<close> itself being \<^verbatim>\<open>None\<close> raises.
\<close>

definition optional_text :: "string \<Rightarrow> xml option \<Rightarrow> py_error + string option" where
  "optional_text name x =
     py_bind (attr name x) (\<lambda>f. Inr (case f of None \<Rightarrow> None | Some t \<Rightarrow> Some (get_text t)))"

text \<open>Lines 49 to 52: the loop over the \<^verbatim>\<open>spf\<close> tags, the list built so far as accumulator.\<close>

fun spf_loop :: "xml list \<Rightarrow> spf_result list \<Rightarrow> py_error + spf_result list" where
  "spf_loop [] acc = Inr acc"
| "spf_loop (x # xs) acc =
     py_bind (str_text (find ''result'' x)) (\<lambda>r.
     py_bind (str_text (find ''domain'' x)) (\<lambda>d.
     spf_loop xs (acc @ [\<lparr>spf_domain = d, spf_result = r\<rparr>])))"

text \<open>Lines 58 to 61: the four values read from one \<^verbatim>\<open>dkim\<close> tag.\<close>

definition dkim_entry :: "xml \<Rightarrow> py_error + dkim_signature" where
  "dkim_entry x =
     py_bind (str_text (find ''result'' x)) (\<lambda>r.
     py_bind (str_text (find ''domain'' x)) (\<lambda>d.
     Inr \<lparr>dkim_result = r, dkim_domain = d,
          dkim_selector = map_option get_text (find ''selector'' x),
          dkim_human_result = map_option get_text (find ''human_result'' x)\<rparr>))"

text \<open>Lines 57 to 63: the loop over the \<^verbatim>\<open>dkim\<close> tags, with the test of line 62.\<close>

fun dkim_loop :: "xml list \<Rightarrow> dkim_signature list \<Rightarrow> py_error + dkim_signature list" where
  "dkim_loop [] acc = Inr acc"
| "dkim_loop (x # xs) acc =
     py_bind (dkim_entry x) (\<lambda>sig.
     if dkim_result sig \<notin> set [''none'', ''neutral''] \<and> dkim_domain sig \<noteq> ''not.evaluated''
     then dkim_loop xs (acc @ [sig])
     else dkim_loop xs acc)"

text \<open>\<^verbatim>\<open>DMARCRecord.__init__\<close>, line by line.\<close>

definition DMARCRecord_init ::
  "(string \<Rightarrow> dns_outcome) \<Rightarrow> resolver \<Rightarrow> xml \<Rightarrow> py_error + (DMARCRecord \<times> resolver)" where
  "DMARCRecord_init gethostbyaddr st record_xml =
     py_bind (str_text (find ''source_ip'' record_xml)) (\<lambda>ip'.
     py_bind (lookup_ip gethostbyaddr st ip') (\<lambda>(host', st').
     py_bind (attr ''policy_evaluated'' (find ''row'' record_xml)) (\<lambda>policy_evaluated.
     py_bind (py_bind (attr ''disposition'' policy_evaluated) str_text) (\<lambda>disposition'.
     py_bind (py_bind (attr ''spf'' policy_evaluated) spf_flag) (\<lambda>spf_pass'.
     py_bind (py_bind (attr ''dkim'' policy_evaluated) dkim_flag) (\<lambda>dkim_pass'.
     py_bind (reason_type policy_evaluated) (\<lambda>reason'.
     py_bind (optional_text ''header_from'' (find ''identifiers'' record_xml)) (\<lambda>header_from'.
     py_bind (optional_text ''envelope_from'' (find ''identifiers'' record_xml)) (\<lambda>envelope_from'.
     py_bind (py_bind (str_text (find ''count'' record_xml)) py_int) (\<lambda>count'.
     py_bind (attr_find_all ''spf'' (find ''auth_results'' record_xml)) (\<lambda>xml_spf_results.
     py_bind (spf_loop xml_spf_results []) (\<lambda>spf_results'.
     py_bind (attr_find_all ''dkim'' (find ''auth_results'' record_xml)) (\<lambda>xml_dkim_signatures.
     py_bind (dkim_loop xml_dkim_signatures []) (\<lambda>dkim_signatures'.
     Inr (\<lparr>ip = ip', host = host', disposition = disposition', reason = reason',
           spf_pass = spf_pass', dkim_pass = dkim_pass', header_from = header_from',
           envelope_from = envelope_from', count = count',
           spf_results = spf_results', dkim_signatures = dkim_signatures'\<rparr>, st')))))))))))))))"

text \<open>The element that \<^verbatim>\<open>record_xml.row.policy_evaluated\<close> denotes, if any.\<close>

definition policy_evaluated :: "xml \<Rightarrow> xml option" where
  "policy_evaluated record_xml =
     (case find ''row'' record_xml of None \<Rightarrow> None | Some row \<Rightarrow> find ''policy_evaluated'' row)"

section \<open>Reports\<close>

text \<open>
  A date is kept as the POSIX time stamp it was built from;
  \<^verbatim>\<open>datetime.utcfromtimestamp\<close> raises outside the years 1 to 9999
  (ValueError; far outside, where the platform's time type ends, OverflowError or OSError,
  which the model does not tell apart from it).
\<close>

record DMARCReport =
  report_id :: string
  filename :: string
  receiver :: string
  start_date :: int
  end_date :: int
  records :: "DMARCRecord list"

definition utcfromtimestamp :: "int \<Rightarrow> py_error + int" where
  "utcfromtimestamp t =
     (if - 62135596800 \<le> t \<and> t \<le> 253402300799 then Inr t else Inl ValueError)"

definition DMARCReport_init :: "string \<Rightarrow> xml option \<Rightarrow> xml option \<Rightarrow> py_error + DMARCReport" where
  "DMARCReport_init filename' metadata_xml policy_xml =
     py_bind (py_bind (attr ''report_id'' metadata_xml) str_text) (\<lambda>id'.
     py_bind (py_bind (attr ''org_name'' metadata_xml) str_text) (\<lambda>receiver'.
     py_bind (attr ''date_range'' metadata_xml) (\<lambda>date_range.
     py_bind (py_bind (py_bind (py_bind (attr ''begin'' date_range) str_text) py_int)
                utcfromtimestamp) (\<lambda>start_date'.
     py_bind (py_bind (py_bind (py_bind (attr ''end'' date_range) str_text) py_int)
                utcfromtimestamp) (\<lambda>end_date'.
     Inr \<lparr>report_id = id', filename = filename', receiver = receiver',
          start_date = start_date', end_date = end_date', records = []\<rparr>)))))"

definition add_record :: "DMARCReport \<Rightarrow> DMARCRecord \<Rightarrow> DMARCReport" where
  "add_record report record' = report\<lparr>records := records report @ [record']\<rparr>"

text \<open>Lines 102 to 104: the loop of \<^verbatim>\<open>_process_xml\<close> over the record tags.\<close>

fun records_loop ::
  "(string \<Rightarrow> dns_outcome) \<Rightarrow> resolver \<Rightarrow> xml list \<Rightarrow> DMARCReport
     \<Rightarrow> py_error + (DMARCReport \<times> resolver)" where
  "records_loop gethostbyaddr st [] report = Inr (report, st)"
| "records_loop gethostbyaddr st (r # rs) report =
     py_bind (DMARCRecord_init gethostbyaddr st r) (\<lambda>(record', st').
     records_loop gethostbyaddr st' rs (add_record report record'))"

text \<open>
  \<^verbatim>\<open>_process_xml\<close>. The stream is given by the document that BeautifulSoup
  builds from it.
\<close>

definition process_xml ::
  "(string \<Rightarrow> dns_outcome) \<Rightarrow> resolver \<Rightarrow> xml \<Rightarrow> string
     \<Rightarrow> py_error + (DMARCReport \<times> resolver)" where
  "process_xml gethostbyaddr st report_xml report_filename =
     py_bind (DMARCReport_init report_filename (find ''report_metadata'' report_xml)
                (find ''policy_published'' report_xml)) (\<lambda>report.
     records_loop gethostbyaddr st (find_all ''record'' report_xml) report)"

section \<open>Archives\<close>

text \<open>
  What a path of the report directory holds: a zip archive with its members in the
  order of \<^verbatim>\<open>namelist()\<close>, each with the document its bytes parse to; a gzip
  file, with the document its decompressed bytes parse to; or anything else.
  Opening a zip member by name gives the last member of that name.
\<close>

datatype archive = ZipArchive "(string \<times> xml) list" | GzipFile xml | NotAnArchive

definition zip_open :: "(string \<times> xml) list \<Rightarrow> string \<Rightarrow> py_error + xml" where
  "zip_open members name =
     (case map_of (rev members) name of None \<Rightarrow> Inl KeyError | Some xml_file \<Rightarrow> Inr xml_file)"

text \<open>Lines 111 to 115: the first member whose name ends in \<^verbatim>\<open>.xml\<close> is the report.\<close>

fun namelist_loop ::
  "(string \<Rightarrow> dns_outcome) \<Rightarrow> resolver \<Rightarrow> (string \<times> xml) list \<Rightarrow> string \<Rightarrow> string list
     \<Rightarrow> py_error + (DMARCReport option \<times> resolver)" where
  "namelist_loop gethostbyaddr st members archive_name [] = Inr (None, st)"
| "namelist_loop gethostbyaddr st members archive_name (subfile_name # rest) =
     (if endswith subfile_name ''.xml''
      then py_bind (zip_open members subfile_name) (\<lambda>xml_file.
           py_bind (process_xml gethostbyaddr st xml_file archive_name) (\<lambda>(report, st').
           Inr (Some report, st')))
      else namelist_loop gethostbyaddr st members archive_name rest)"

definition process_zipfile ::
  "(string \<rightharpoonup> archive) \<Rightarrow> (string \<Rightarrow> dns_outcome) \<Rightarrow> resolver \<Rightarrow> string
     \<Rightarrow> py_error + (DMARCReport option \<times> resolver)" where
  "process_zipfile fs gethostbyaddr st fname =
     (let archive_name = last (split_on CHR ''/'' fname)
      in case fs fname of
           None \<Rightarrow> Inl FileNotFoundError
         | Some (ZipArchive members) \<Rightarrow>
             namelist_loop gethostbyaddr st members archive_name (map fst members)
         | Some (GzipFile d) \<Rightarrow> Inl BadZipFile
         | Some NotAnArchive \<Rightarrow> Inl BadZipFile)"

definition process_gzfile ::
  "(string \<rightharpoonup> archive) \<Rightarrow> (string \<Rightarrow> dns_outcome) \<Rightarrow> resolver \<Rightarrow> string
     \<Rightarrow> py_error + (DMARCReport option \<times> resolver)" where
  "process_gzfile fs gethostbyaddr st fname =
     (let archive_name = last (split_on CHR ''/'' fname);
          subfile_name = py_replace ''.gz'' [] archive_name
      in if endswith subfile_name ''.xml''
         then (case fs fname of
                 None \<Rightarrow> Inl FileNotFoundError
               | Some (GzipFile xml_file) \<Rightarrow>
                   py_bind (process_xml gethostbyaddr st xml_file archive_name) (\<lambda>(report, st').
                   Inr (Some report, st'))
               | Some (ZipArchive members) \<Rightarrow> Inl BadGzipFile
               | Some NotAnArchive \<Rightarrow> Inl BadGzipFile)
         else Inr (None, st))"

section \<open>The ingestion driver\<close>

text \<open>
  The store is the class \<^verbatim>\<open>DMARCStorage\<close> of another module; its two
  operations are parameters, over any type \<open>'s\<close> of store states.
\<close>

definition parse_report ::
  "('s \<Rightarrow> DMARCReport \<Rightarrow> 's) \<Rightarrow> (string \<rightharpoonup> archive) \<Rightarrow> (string \<Rightarrow> dns_outcome)
     \<Rightarrow> 's \<times> resolver \<Rightarrow> string \<Rightarrow> string \<Rightarrow> py_error + (bool \<times> 's \<times> resolver)" where
  "parse_report save_new_report fs gethostbyaddr w root fname =
     (case w of (store, st) \<Rightarrow>
        py_bind
          (if endswith fname ''.zip'' then process_zipfile fs gethostbyaddr st (root @ ''/'' @ fname)
           else if endswith fname ''.gz'' then process_gzfile fs gethostbyaddr st (root @ ''/'' @ fname)
           else Inr (None, st))
          (\<lambda>(report, st').
             case report of
               Some r \<Rightarrow> Inr (True, save_new_report store r, st')
             | None \<Rightarrow> Inr (False, store, st')))"

text \<open>
  Lines 146 to 153, the loop over the files of one directory. The state is the two
  counters of the summary, the store and the resolver.
\<close>

fun files_loop ::
  "('s \<Rightarrow> string \<Rightarrow> bool) \<Rightarrow> ('s \<Rightarrow> DMARCReport \<Rightarrow> 's) \<Rightarrow> (string \<rightharpoonup> archive)
     \<Rightarrow> (string \<Rightarrow> dns_outcome) \<Rightarrow> string \<Rightarrow> string list \<Rightarrow> nat \<times> nat \<times> 's \<times> resolver
     \<Rightarrow> py_error + (nat \<times> nat \<times> 's \<times> resolver)" where
  "files_loop report_already_exists save_new_report fs gethostbyaddr root [] w = Inr w"
| "files_loop report_already_exists save_new_report fs gethostbyaddr root (fname # files) w =
     (case w of (n, n_new, store, st) \<Rightarrow>
        if report_already_exists store fname
        then files_loop report_already_exists save_new_report fs gethostbyaddr root files
               (n + 1, n_new, store, st)
        else py_bind (parse_report save_new_report fs gethostbyaddr (store, st) root fname)
               (\<lambda>(saved, store', st').
                  files_loop report_already_exists save_new_report fs gethostbyaddr root files
                    (n + 1, if saved then n_new + 1 else n_new, store', st')))"

text \<open>Line 145, the loop over what \<^verbatim>\<open>os.walk\<close> yields: directories with their files.\<close>

fun walk_loop ::
  "('s \<Rightarrow> string \<Rightarrow> bool) \<Rightarrow> ('s \<Rightarrow> DMARCReport \<Rightarrow> 's) \<Rightarrow> (string \<rightharpoonup> archive)
     \<Rightarrow> (string \<Rightarrow> dns_outcome) \<Rightarrow> (string \<times> string list) list \<Rightarrow> nat \<times> nat \<times> 's \<times> resolver
     \<Rightarrow> py_error + (nat \<times> nat \<times> 's \<times> resolver)" where
  "walk_loop report_already_exists save_new_report fs gethostbyaddr [] w = Inr w"
| "walk_loop report_already_exists save_new_report fs gethostbyaddr ((root, files) # dirs) w =
     py_bind (files_loop report_already_exists save_new_report fs gethostbyaddr root files w)
       (walk_loop report_already_exists save_new_report fs gethostbyaddr dirs)"

definition parse_reports_in_directory ::
  "('s \<Rightarrow> string \<Rightarrow> bool) \<Rightarrow> ('s \<Rightarrow> DMARCReport \<Rightarrow> 's) \<Rightarrow> (string \<rightharpoonup> archive)
     \<Rightarrow> (string \<Rightarrow> dns_outcome) \<Rightarrow> (string \<Rightarrow> (string \<times> string list) list)
     \<Rightarrow> 's \<times> resolver \<Rightarrow> string \<Rightarrow> py_error + (nat \<times> nat \<times> 's \<times> resolver)" where
  "parse_reports_in_directory report_already_exists save_new_report fs gethostbyaddr os_walk
       w report_dir =
     (case w of (store, st) \<Rightarrow>
        walk_loop report_already_exists save_new_report fs gethostbyaddr (os_walk report_dir)
          (0, 0, store, st))"

section \<open>Saving and loading the resolver cache\<close>

text \<open>
  The file system is a map from paths to directories and files; a file holds what was
  written to it. \<^verbatim>\<open>pickle.dump\<close> and \<^verbatim>\<open>pickle.load\<close> are parameters,
  over any type \<open>'b\<close> of file contents. The source opens the file with mode
  \<^verbatim>\<open>"wb"\<close> to save (line 161) and with no mode, that is as text, to load
  (line 169): the handle that \<^verbatim>\<open>pickle.load\<close> receives records which.
  Failures of the operating system other than the ones written here (permissions, a
  missing parent directory) are not modelled.
\<close>

datatype 'b node = Dir | File 'b

datatype 'b handle = TextMode 'b | BinaryMode 'b

definition os_path_join :: "string \<Rightarrow> string \<Rightarrow> string" where
  "os_path_join a b =
     (if startswith b ''/'' then b
      else if a = [] \<or> endswith a ''/'' then a @ b
      else a @ ''/'' @ b)"

definition os_path_exists :: "(string \<rightharpoonup> 'b node) \<Rightarrow> string \<Rightarrow> bool" where
  "os_path_exists files path = (case files path of None \<Rightarrow> False | Some n \<Rightarrow> True)"

definition os_path_isfile :: "(string \<rightharpoonup> 'b node) \<Rightarrow> string \<Rightarrow> bool" where
  "os_path_isfile files path = (case files path of Some (File b) \<Rightarrow> True | _ \<Rightarrow> False)"

definition os_makedirs :: "(string \<rightharpoonup> 'b node) \<Rightarrow> string \<Rightarrow> py_error + (string \<rightharpoonup> 'b node)" where
  "os_makedirs files path =
     (if path = [] then Inl FileNotFoundError else Inr (files(path \<mapsto> Dir)))"

text \<open>\<^verbatim>\<open>open(filepath, "wb")\<close> followed by writing \<open>b\<close> and closing.\<close>

definition write_file :: "(string \<rightharpoonup> 'b node) \<Rightarrow> string \<Rightarrow> 'b \<Rightarrow> py_error + (string \<rightharpoonup> 'b node)" where
  "write_file files path b =
     (case files path of
        Some Dir \<Rightarrow> Inl IsADirectoryError
      | _ \<Rightarrow> if path = [] then Inl FileNotFoundError else Inr (files(path \<mapsto> File b)))"

definition save_rdns_records ::
  "((string \<rightharpoonup> string) \<Rightarrow> 'b) \<Rightarrow> (string \<rightharpoonup> 'b node) \<Rightarrow> (string \<rightharpoonup> string) \<Rightarrow> string \<Rightarrow> string
     \<Rightarrow> py_error + (string \<rightharpoonup> 'b node)" where
  "save_rdns_records pickle_dump files rdns_records' rdns_filename rdns_directory =
     (let filepath = os_path_join rdns_directory rdns_filename
      in py_bind (if \<not> os_path_exists files rdns_directory then os_makedirs files rdns_directory
                  else Inr files) (\<lambda>files'.
         write_file files' filepath (pickle_dump rdns_records')))"

definition load_rdns_records ::
  "('b handle \<Rightarrow> py_error + (string \<rightharpoonup> string)) \<Rightarrow> (string \<rightharpoonup> 'b node) \<Rightarrow> string \<Rightarrow> string
     \<Rightarrow> py_error + (string \<rightharpoonup> string)" where
  "load_rdns_records pickle_load files rdns_filename rdns_directory =
     (let filepath = os_path_join rdns_directory rdns_filename
      in if os_path_isfile files filepath
         then (case files filepath of
                 Some (File b) \<Rightarrow> pickle_load (TextMode b)
               | _ \<Rightarrow> Inl FileNotFoundError)
         else Inr Map.empty)"

text \<open>
  The pickle module of Python 3, for the examples. The bytes that
  \<^verbatim>\<open>pickle.dump\<close> writes for a mapping are identified with the mapping.
  \<^verbatim>\<open>pickle.load\<close> reads them back from a file opened in binary mode. On a
  file opened as text it raises: the first byte of a pickle, 128, is no UTF-8 text, so
  reading the file raises UnicodeDecodeError (and under an encoding that decodes every
  byte, \<^verbatim>\<open>pickle.load\<close> is handed a string and raises TypeError).
\<close>

definition py3_pickle_dump :: "(string \<rightharpoonup> string) \<Rightarrow> (string \<rightharpoonup> string)" where
  "py3_pickle_dump m = m"

definition py3_pickle_load ::
  "(string \<rightharpoonup> string) handle \<Rightarrow> py_error + (string \<rightharpoonup> string)" where
  "py3_pickle_load h = (case h of BinaryMode b \<Rightarrow> Inr b | TextMode b \<Rightarrow> Inl UnicodeDecodeError)"

section \<open>The claims of the specification, in its words\<close>

text \<open>
  The specification's reading of "\<^verbatim>\<open>policy_evaluated\<close> has no dkim (spf)
  child": no element of that name among the elements directly below it.
\<close>

fun children :: "xml \<Rightarrow> xml list" where
  "children (Tag n cs) = cs"
| "children (NavigableString s) = []"

definition spec_has_child :: "string \<Rightarrow> xml \<Rightarrow> bool" where
  "spec_has_child name t = (filter (is_tag name) (children t) \<noteq> [])"

text \<open>
  The specification's reading of the DKIM filter: an entry is dropped when its result is
  "none" or "neutral" and its domain is the sentinel, both at once.
\<close>

definition spec_dkim_excluded :: "dkim_signature \<Rightarrow> bool" where
  "spec_dkim_excluded sig =
     (dkim_result sig \<in> {''none'', ''neutral''} \<and> dkim_domain sig = ''not.evaluated'')"

text \<open>
  The specification's rule for a gzip file: the name with its \<^verbatim>\<open>.gz\<close> suffix
  stripped must end in \<^verbatim>\<open>.xml\<close>.
\<close>

definition spec_gz_subfile_name :: "string \<Rightarrow> string" where
  "spec_gz_subfile_name archive_name =
     (if endswith archive_name ''.gz'' then take (length archive_name - 3) archive_name
      else archive_name)"

section \<open>Example inputs\<close>

definition leaf :: "string \<Rightarrow> string \<Rightarrow> xml" where
  "leaf name s = Tag name [NavigableString s]"

text \<open>
  A record element for address 192.0.2.1 with disposition "none", the given further
  children of \<^verbatim>\<open>policy_evaluated\<close>, the given text of \<^verbatim>\<open>count\<close> and the
  given children of \<^verbatim>\<open>auth_results\<close>.
\<close>

definition example_record :: "xml list \<Rightarrow> string \<Rightarrow> xml list \<Rightarrow> xml" where
  "example_record policy n auth =
     Tag ''record''
       [Tag ''row''
          [leaf ''source_ip'' ''192.0.2.1'', leaf ''count'' n,
           Tag ''policy_evaluated'' (leaf ''disposition'' ''none'' # policy)],
        Tag ''identifiers'' [leaf ''header_from'' ''example.com''],
        Tag ''auth_results'' auth]"

text \<open>The same record element with nothing but the given children of \<^verbatim>\<open>policy_evaluated\<close>.\<close>

definition example_bare_record :: "xml list \<Rightarrow> string \<Rightarrow> xml list \<Rightarrow> xml" where
  "example_bare_record policy n auth =
     Tag ''record''
       [Tag ''row''
          [leaf ''source_ip'' ''192.0.2.1'', leaf ''count'' n,
           Tag ''policy_evaluated'' policy],
        Tag ''identifiers'' [leaf ''header_from'' ''example.com''],
        Tag ''auth_results'' auth]"

definition example_dkim :: "string \<Rightarrow> string \<Rightarrow> xml" where
  "example_dkim d r = Tag ''dkim'' [leaf ''domain'' d, leaf ''result'' r]"

definition example_document :: "xml list \<Rightarrow> xml" where
  "example_document rs =
     Tag ''[document]''
       [Tag ''feedback''
          (Tag ''report_metadata''
             [leaf ''org_name'' ''example.net'', leaf ''report_id'' ''r1'',
              Tag ''date_range'' [leaf ''begin'' ''1700000000'', leaf ''end'' ''1700086400'']]
           # rs)]"

definition no_resolver :: resolver where
  "no_resolver = \<lparr>rdns_records = Map.empty, lookups = []\<rparr>"

text \<open>
  A report directory: a file that is no archive, a gzip file whose document is empty, and
  a gzip file with a report without records.
\<close>

definition example_reports :: "string \<rightharpoonup> archive" where
  "example_reports =
     [''./reports/bad.zip'' \<mapsto> NotAnArchive,
      ''./reports/empty.xml.gz'' \<mapsto> GzipFile (Tag ''[document]'' []),
      ''./reports/good.xml.gz'' \<mapsto> GzipFile (example_document [])]"


text \<open>
  Modelled from the spec: the report store of section 6, for the examples. It is the
  list of the reports saved; a report exists for a file name when a saved report
  carries that name.
\<close>

definition list_store_exists :: "DMARCReport list \<Rightarrow> string \<Rightarrow> bool" where
  "list_store_exists store fname = (fname \<in> set (map filename store))"

definition list_store_save :: "DMARCReport list \<Rightarrow> DMARCReport \<Rightarrow> DMARCReport list" where
  "list_store_save store report = store @ [report]"

text \<open>Line 62 as a predicate on the entry: the entry is appended exactly when this holds.\<close>

definition dkim_kept :: "dkim_signature \<Rightarrow> bool" where
  "dkim_kept sig =
     (\<not> (dkim_result sig \<in> {''none'', ''neutral''} \<or> dkim_domain sig = ''not.evaluated''))"

section \<open>What a successful construction of a record says\<close>

lemma py_bind_Inr_iff: "py_bind m f = Inr y \<longleftrightarrow> (\<exists>x. m = Inr x \<and> f x = Inr y)"
  by (cases m) (simp_all add: py_bind_def)

lemma py_bind_Inl_iff: "py_bind m f = Inl e \<longleftrightarrow> m = Inl e \<or> (\<exists>x. m = Inr x \<and> f x = Inl e)"
  by (cases m) (simp_all add: py_bind_def)

lemma py_bind_simps [simp]: "py_bind (Inl e) f = Inl e" "py_bind (Inr x) f = f x"
  by (simp_all add: py_bind_def)

lemma attr_Inr_iff: "attr name x = Inr y \<longleftrightarrow> (\<exists>t. x = Some t \<and> y = find name t)"
  by (cases x) (auto simp: attr_def)

lemma attr_find_all_Inr_iff: "attr_find_all name x = Inr y \<longleftrightarrow> (\<exists>t. x = Some t \<and> y = find_all name t)"
  by (cases x) (auto simp: attr_find_all_def)

lemma str_text_Inr_iff: "str_text x = Inr y \<longleftrightarrow> (\<exists>t. x = Some t \<and> y = get_text t)"
  by (cases x) (auto simp: str_text_def)

lemma DMARCRecord_init_InrD:
  assumes "DMARCRecord_init g st r = Inr (rec, st')"
  shows "\<exists>src pe disp c auth.
           find ''source_ip'' r = Some src \<and> ip rec = get_text src \<and>
           lookup_ip g st (get_text src) = Inr (host rec, st') \<and>
           policy_evaluated r = Some pe \<and>
           find ''disposition'' pe = Some disp \<and> disposition rec = get_text disp \<and>
           spf_flag (find ''spf'' pe) = Inr (spf_pass rec) \<and>
           dkim_flag (find ''dkim'' pe) = Inr (dkim_pass rec) \<and>
           find ''count'' r = Some c \<and> py_int (get_text c) = Inr (count rec) \<and>
           find ''auth_results'' r = Some auth \<and>
           spf_loop (find_all ''spf'' auth) [] = Inr (spf_results rec) \<and>
           dkim_loop (find_all ''dkim'' auth) [] = Inr (dkim_signatures rec)"
  using assms unfolding DMARCRecord_init_def policy_evaluated_def
  by (auto simp: py_bind_Inr_iff attr_Inr_iff str_text_Inr_iff attr_find_all_Inr_iff split: prod.splits option.splits)

lemma spf_loop_not_assert: "spf_loop xs acc \<noteq> Inl AssertionError"
  by (induction xs arbitrary: acc) (auto simp: py_bind_Inl_iff str_text_def split: option.splits)

lemma dkim_entry_not_assert: "dkim_entry x \<noteq> Inl AssertionError"
  by (auto simp: dkim_entry_def py_bind_Inl_iff str_text_def split: option.splits)

lemma dkim_loop_not_assert: "dkim_loop xs acc \<noteq> Inl AssertionError"
  by (induction xs arbitrary: acc) (auto simp: py_bind_Inl_iff dkim_entry_not_assert)

lemma py_int_not_assert: "py_int s \<noteq> Inl AssertionError"
  by (auto simp: py_int_def Let_def split: prod.splits)

lemma optional_text_not_assert: "optional_text n x \<noteq> Inl AssertionError"
  by (auto simp: optional_text_def attr_def py_bind_Inl_iff split: option.splits)

lemma reason_type_Some: "\<exists>v. reason_type (Some pe) = Inr v"
  by (auto simp: reason_type_def attr_def split: option.splits)

lemma dkim_loop_Inr:
  "dkim_loop xs acc = Inr sigs \<Longrightarrow>
     \<exists>ds. map dkim_entry xs = map Inr ds \<and> sigs = acc @ filter dkim_kept ds"
proof (induction xs arbitrary: acc)
  case Nil
  then show ?case by simp
next
  case (Cons x xs)
  from Cons.prems obtain d where d: "dkim_entry x = Inr d" 
    and rest: "(if dkim_kept d then dkim_loop xs (acc @ [d]) else dkim_loop xs acc) = Inr sigs"
    by (auto simp: py_bind_Inr_iff dkim_kept_def)
  show ?case
  proof (cases "dkim_kept d")
    case True
    with rest Cons.IH[of "acc @ [d]"] obtain ds where
      "map dkim_entry xs = map Inr ds" "sigs = (acc @ [d]) @ filter dkim_kept ds" by auto
    with d True show ?thesis by (intro exI[of _ "d # ds"]) simp
  next
    case False
    with rest Cons.IH[of acc] obtain ds where
      "map dkim_entry xs = map Inr ds" "sigs = acc @ filter dkim_kept ds" by auto
    with d False show ?thesis by (intro exI[of _ "d # ds"]) simp
  qed
qed

lemma policy_evaluated_attr:
  "policy_evaluated r = Some pe \<Longrightarrow> attr ''policy_evaluated'' (find ''row'' r) = Inr (Some pe)"
  by (auto simp: policy_evaluated_def attr_def split: option.splits)

text \<open>
  The construction reads the record element through five lookups only, and it does
  nothing with the count but store it: a second element that agrees with a decoded one
  on the other four lookups is decoded to the same record with its own count.
\<close>

lemma DMARCRecord_init_frame:
  assumes ok: "DMARCRecord_init g st r = Inr (rec, st')"
    and src: "find ''source_ip'' r' = find ''source_ip'' r"
    and pe: "policy_evaluated r' = policy_evaluated r"
    and ids: "find ''identifiers'' r' = find ''identifiers'' r"
    and auth: "find ''auth_results'' r' = find ''auth_results'' r"
    and c': "find ''count'' r' = Some c'" and n: "py_int (get_text c') = Inr n"
  shows "DMARCRecord_init g st r' = Inr (rec\<lparr>count := n\<rparr>, st')"
proof -
  from DMARCRecord_init_InrD[OF ok] obtain p where p: "policy_evaluated r = Some p" by auto
  note row = policy_evaluated_attr[OF p]
  from p pe have "policy_evaluated r' = Some p" by simp
  note row' = policy_evaluated_attr[OF this]
  show ?thesis
    using ok unfolding DMARCRecord_init_def row row' src ids auth c'
    by (auto simp: py_bind_Inr_iff n str_text_def)
qed

section \<open>The policy results of a record\<close>

text \<open>
  C5, as amended. A record that \<^verbatim>\<open>DMARCRecord.__init__\<close> returns always has a
  defined \<open>dkim_pass\<close> (it is never \<^verbatim>\<open>None\<close>). It is \<^verbatim>\<open>False\<close>
  when no \<^verbatim>\<open>dkim\<close> element occurs at any depth below
  \<^verbatim>\<open>policy_evaluated\<close>, which is what \<^verbatim>\<open>policy_evaluated.dkim is None\<close>
  tests: the lookup searches all descendants, not the children only. Where there is
  one, the first in document order decides: the flag is (text = "pass").
\<close>

theorem dkim_pass_defined:
  assumes "DMARCRecord_init g st r = Inr (rec, st')"
  shows "dkim_pass rec \<noteq> None \<and>
         (\<exists>pe. policy_evaluated r = Some pe \<and>
            dkim_pass rec = (case find ''dkim'' pe of
                               None \<Rightarrow> Some False
                             | Some t \<Rightarrow> Some (get_text t = ''pass'')))"
proof -
  from DMARCRecord_init_InrD[OF assms] obtain pe where
    pe: "policy_evaluated r = Some pe" "dkim_flag (find ''dkim'' pe) = Inr (dkim_pass rec)"
    by auto
  from pe(2)[symmetric] have v: "dkim_pass rec = (case find ''dkim'' pe of
                               None \<Rightarrow> Some False
                             | Some t \<Rightarrow> Some (get_text t = ''pass''))"
    by (cases "find ''dkim'' pe") (auto simp: dkim_flag_def split: if_splits)
  then have "dkim_pass rec \<noteq> None" by (cases "find ''dkim'' pe") simp_all
  with pe(1) v show ?thesis by blast
qed

text \<open>
  C6, as amended. In a record that the decoder returns, \<open>spf_pass\<close> is
  \<^verbatim>\<open>None\<close> (undefined, not false) when no \<^verbatim>\<open>spf\<close> element occurs at
  any depth below \<^verbatim>\<open>policy_evaluated\<close>, which is what
  \<^verbatim>\<open>policy_evaluated.spf is None\<close> tests: the lookup searches all descendants,
  not the children only. Where there is one, the first in document order decides: the
  flag is (text = "pass").
\<close>

theorem spf_pass_undefined:
  assumes "DMARCRecord_init g st r = Inr (rec, st')"
  shows "\<exists>pe. policy_evaluated r = Some pe \<and>
            spf_pass rec = (case find ''spf'' pe of
                              None \<Rightarrow> None
                            | Some t \<Rightarrow> Some (get_text t = ''pass''))"
proof -
  from DMARCRecord_init_InrD[OF assms] obtain pe where
    pe: "policy_evaluated r = Some pe" "spf_flag (find ''spf'' pe) = Inr (spf_pass rec)"
    by auto
  from pe(2)[symmetric] have "spf_pass rec = (case find ''spf'' pe of
                              None \<Rightarrow> None
                            | Some t \<Rightarrow> Some (get_text t = ''pass''))"
    by (cases "find ''spf'' pe") (auto simp: spf_flag_def split: if_splits)
  with pe(1) show ?thesis by blast
qed

text \<open>
  C7, as amended. Take a record element whose construction reaches the two checks: the
  statements of lines 22, 23, 25 and 26 run before them, so its \<^verbatim>\<open>source_ip\<close>,
  \<^verbatim>\<open>row\<close>, \<^verbatim>\<open>policy_evaluated\<close> and \<^verbatim>\<open>disposition\<close> are
  there and its address lookup does not raise. Then the construction raises
  AssertionError if and only if \<^verbatim>\<open>policy_evaluated.spf\<close> or
  \<^verbatim>\<open>policy_evaluated.dkim\<close> is present with a text other than "pass" and
  "fail"; and in every record that is returned, the flag of a present element is
  (text = "pass").
\<close>

theorem policy_result_checked:
  assumes "find ''source_ip'' r = Some src"
    and "lookup_ip g st (get_text src) = Inr (h, st1)"
    and "policy_evaluated r = Some pe"
    and "find ''disposition'' pe = Some d"
  shows "(DMARCRecord_init g st r = Inl AssertionError \<longleftrightarrow>
           (\<exists>t. find ''spf'' pe = Some t \<and> get_text t \<notin> {''pass'', ''fail''}) \<or>
           (\<exists>t. find ''dkim'' pe = Some t \<and> get_text t \<notin> {''pass'', ''fail''})) \<and>
         (\<forall>rec st'. DMARCRecord_init g st r = Inr (rec, st') \<longrightarrow>
           (\<forall>t. find ''spf'' pe = Some t \<longrightarrow> spf_pass rec = Some (get_text t = ''pass'')) \<and>
           (\<forall>t. find ''dkim'' pe = Some t \<longrightarrow> dkim_pass rec = Some (get_text t = ''pass'')))"
proof (intro conjI allI impI)
  define rest where "rest = (\<lambda>spf_pass' dkim_pass'.
     py_bind (reason_type (Some pe)) (\<lambda>reason'.
     py_bind (optional_text ''header_from'' (find ''identifiers'' r)) (\<lambda>header_from'.
     py_bind (optional_text ''envelope_from'' (find ''identifiers'' r)) (\<lambda>envelope_from'.
     py_bind (py_bind (str_text (find ''count'' r)) py_int) (\<lambda>count'.
     py_bind (attr_find_all ''spf'' (find ''auth_results'' r)) (\<lambda>xml_spf_results.
     py_bind (spf_loop xml_spf_results []) (\<lambda>spf_results'.
     py_bind (attr_find_all ''dkim'' (find ''auth_results'' r)) (\<lambda>xml_dkim_signatures.
     py_bind (dkim_loop xml_dkim_signatures []) (\<lambda>dkim_signatures'.
     Inr (\<lparr>ip = get_text src, host = h, disposition = get_text d, reason = reason',
           spf_pass = spf_pass', dkim_pass = dkim_pass', header_from = header_from',
           envelope_from = envelope_from', count = count',
           spf_results = spf_results', dkim_signatures = dkim_signatures'\<rparr>, st1))))))))))"
  have row: "attr ''policy_evaluated'' (find ''row'' r) = Inr (Some pe)"
    using assms(3) by (auto simp: policy_evaluated_def attr_def split: option.splits)
  have staged: "DMARCRecord_init g st r =
      py_bind (spf_flag (find ''spf'' pe)) (\<lambda>s. py_bind (dkim_flag (find ''dkim'' pe)) (rest s))"
    unfolding DMARCRecord_init_def rest_def using assms(1,2,4) row
    by (simp add: str_text_def attr_def)
  have rest_ok: "rest s k \<noteq> Inl AssertionError" for s k
    unfolding rest_def using reason_type_Some[of pe]
    by (auto simp: py_bind_Inl_iff spf_loop_not_assert dkim_loop_not_assert py_int_not_assert
        optional_text_not_assert str_text_def attr_find_all_def split: option.splits)
  show "DMARCRecord_init g st r = Inl AssertionError \<longleftrightarrow>
           (\<exists>t. find ''spf'' pe = Some t \<and> get_text t \<notin> {''pass'', ''fail''}) \<or>
           (\<exists>t. find ''dkim'' pe = Some t \<and> get_text t \<notin> {''pass'', ''fail''})"
    unfolding staged using rest_ok
    by (cases "find ''spf'' pe"; cases "find ''dkim'' pe")
       (simp_all add: spf_flag_def dkim_flag_def)
next
  fix rec st' t
  assume a: "DMARCRecord_init g st r = Inr (rec, st')"
  from DMARCRecord_init_InrD[OF a] assms(3)
  have f: "spf_flag (find ''spf'' pe) = Inr (spf_pass rec)"
          "dkim_flag (find ''dkim'' pe) = Inr (dkim_pass rec)" by auto
  { assume "find ''spf'' pe = Some t"
    with f(1) show "spf_pass rec = Some (get_text t = ''pass'')"
      by (auto simp: spf_flag_def split: if_splits) }
  { assume "find ''dkim'' pe = Some t"
    with f(2) show "dkim_pass rec = Some (get_text t = ''pass'')"
      by (auto simp: dkim_flag_def split: if_splits) }
qed

section \<open>The message count\<close>

text \<open>
  C9, as amended. The count of a record that the decoder returns is the integer that
  \<^verbatim>\<open>int()\<close> reads from the text of the record's \<^verbatim>\<open>count\<close> element.
  No lower bound is enforced: when a record element is decoded, every record element
  that differs from it in the count only, with a count text that \<^verbatim>\<open>int()\<close>
  reads as \<open>n\<close>, is decoded to the same record with count \<open>n\<close>, whatever
  \<open>n\<close> is, so 0 and negative counts are accepted.
\<close>

theorem count_is_int_of_text:
  assumes "DMARCRecord_init g st r = Inr (rec, st')"
  shows "(\<exists>c. find ''count'' r = Some c \<and> py_int (get_text c) = Inr (count rec)) \<and>
         (\<forall>r' c' n.
            find ''source_ip'' r' = find ''source_ip'' r \<and>
            policy_evaluated r' = policy_evaluated r \<and>
            find ''identifiers'' r' = find ''identifiers'' r \<and>
            find ''auth_results'' r' = find ''auth_results'' r \<and>
            find ''count'' r' = Some c' \<and> py_int (get_text c') = Inr n \<longrightarrow>
            DMARCRecord_init g st r' = Inr (rec\<lparr>count := n\<rparr>, st'))"
proof (intro conjI allI impI)
  show "\<exists>c. find ''count'' r = Some c \<and> py_int (get_text c) = Inr (count rec)"
    using DMARCRecord_init_InrD[OF assms] by auto
next
  fix r' c' n
  assume "find ''source_ip'' r' = find ''source_ip'' r \<and>
            policy_evaluated r' = policy_evaluated r \<and>
            find ''identifiers'' r' = find ''identifiers'' r \<and>
            find ''auth_results'' r' = find ''auth_results'' r \<and>
            find ''count'' r' = Some c' \<and> py_int (get_text c') = Inr n"
  then show "DMARCRecord_init g st r' = Inr (rec\<lparr>count := n\<rparr>, st')"
    using DMARCRecord_init_frame[OF assms, of r' c' n] by blast
qed

section \<open>The DKIM signatures of a record\<close>

text \<open>
  C1, as amended. In a record that the decoder returns, the DKIM signatures are the
  entries of \<^verbatim>\<open>auth_results\<close> in their order, without every entry whose result
  is "none" or "neutral" or whose domain is "not.evaluated": one of the two conditions is
  enough to drop an entry, and an entry is kept exactly when neither holds.
\<close>

theorem dkim_signatures_filtered:
  assumes "DMARCRecord_init g st r = Inr (rec, st')"
  shows "\<exists>auth ds. find ''auth_results'' r = Some auth \<and>
           map dkim_entry (find_all ''dkim'' auth) = map Inr ds \<and>
           dkim_signatures rec =
             filter (\<lambda>sig. \<not> (dkim_result sig \<in> {''none'', ''neutral''} \<or>
                               dkim_domain sig = ''not.evaluated'')) ds"
proof -
  from DMARCRecord_init_InrD[OF assms] obtain auth where
    a: "find ''auth_results'' r = Some auth"
       "dkim_loop (find_all ''dkim'' auth) [] = Inr (dkim_signatures rec)" by auto
  from dkim_loop_Inr[OF a(2)] a(1) show ?thesis
    unfolding dkim_kept_def by auto
qed

section \<open>The record theorems on concrete record elements\<close>

lemmas xml_eval = find_def find_all_def leaf_def example_record_def example_dkim_def
  example_bare_record_def str_text_def attr_def attr_find_all_def

lemmas record_eval = DMARCRecord_init_def lookup_ip_def spf_flag_def dkim_flag_def
  reason_type_def optional_text_def py_int_def py_strip_def py_isspace_def is_digit_def
  digits_val_def digit_val_def int_max_str_digits_def dkim_entry_def no_resolver_def

lemma example_mixed_dkim:
  "DMARCRecord_init (\<lambda>a. Herror) no_resolver
     (example_record [leaf ''spf'' ''pass''] ''5''
        [example_dkim ''example.com'' ''none'', example_dkim ''not.evaluated'' ''pass'',
         example_dkim ''not.evaluated'' ''neutral'', example_dkim ''example.org'' ''pass'']) =
   Inr (\<lparr>ip = ''192.0.2.1'', host = None, disposition = ''none'', reason = None,
         spf_pass = Some True, dkim_pass = Some False, header_from = Some ''example.com'',
         envelope_from = None, count = 5, spf_results = [],
         dkim_signatures =
           [\<lparr>dkim_result = ''pass'', dkim_domain = ''example.org'', dkim_selector = None,
             dkim_human_result = None\<rparr>]\<rparr>,
        \<lparr>rdns_records = Map.empty, lookups = [''192.0.2.1'']\<rparr>)"
  by (simp add: record_eval xml_eval)

lemma example_zero_count:
  "DMARCRecord_init (\<lambda>a. Resolved ''mail.example.com'') no_resolver
     (example_record [leaf ''dkim'' ''fail''] ''0'' []) =
   Inr (\<lparr>ip = ''192.0.2.1'', host = Some ''mail.example.com'', disposition = ''none'',
         reason = None, spf_pass = None, dkim_pass = Some False,
         header_from = Some ''example.com'', envelope_from = None, count = 0,
         spf_results = [], dkim_signatures = []\<rparr>,
        \<lparr>rdns_records = [''192.0.2.1'' \<mapsto> ''mail.example.com''], lookups = [''192.0.2.1'']\<rparr>)"
  by (simp add: record_eval xml_eval)

lemma example_negative_count:
  "DMARCRecord_init (\<lambda>a. Resolved ''mail.example.com'') no_resolver
     (example_record [leaf ''dkim'' ''fail''] ''-3'' []) =
   Inr (\<lparr>ip = ''192.0.2.1'', host = Some ''mail.example.com'', disposition = ''none'',
         reason = None, spf_pass = None, dkim_pass = Some False,
         header_from = Some ''example.com'', envelope_from = None, count = - 3,
         spf_results = [], dkim_signatures = []\<rparr>,
        \<lparr>rdns_records = [''192.0.2.1'' \<mapsto> ''mail.example.com''], lookups = [''192.0.2.1'']\<rparr>)"
  by (simp add: record_eval xml_eval)

lemma example_nested_flags:
  "DMARCRecord_init (\<lambda>a. Herror) no_resolver
     (example_record
        [Tag ''reason'' [leaf ''type'' ''local_policy'', leaf ''dkim'' ''pass'', leaf ''spf'' ''pass'']]
        ''5'' []) =
   Inr (\<lparr>ip = ''192.0.2.1'', host = None, disposition = ''none'', reason = Some ''local_policy'',
         spf_pass = Some True, dkim_pass = Some True, header_from = Some ''example.com'',
         envelope_from = None, count = 5, spf_results = [], dkim_signatures = []\<rparr>,
        \<lparr>rdns_records = Map.empty, lookups = [''192.0.2.1'']\<rparr>)"
  by (simp add: record_eval xml_eval)

lemma example_policy:
  "policy_evaluated (example_record p n a) = Some (Tag ''policy_evaluated'' (leaf ''disposition'' ''none'' # p))"
  by (simp add: policy_evaluated_def xml_eval)

text \<open>
  The claim C5 as the specification states it fails on a record element whose
  \<^verbatim>\<open>policy_evaluated\<close> has the children \<^verbatim>\<open>disposition\<close> and
  \<^verbatim>\<open>reason\<close> only, with a \<^verbatim>\<open>dkim\<close> element reading "pass" inside
  \<^verbatim>\<open>reason\<close>: there is no dkim child, and \<open>dkim_pass\<close> is
  \<^verbatim>\<open>True\<close>.
\<close>

theorem dkim_below_reason_decides:
  "policy_evaluated
     (example_record
        [Tag ''reason'' [leaf ''type'' ''local_policy'', leaf ''dkim'' ''pass'', leaf ''spf'' ''pass'']]
        ''5'' []) =
     Some (Tag ''policy_evaluated''
             [leaf ''disposition'' ''none'',
              Tag ''reason'' [leaf ''type'' ''local_policy'', leaf ''dkim'' ''pass'', leaf ''spf'' ''pass'']]) \<and>
   \<not> spec_has_child ''dkim''
       (Tag ''policy_evaluated''
             [leaf ''disposition'' ''none'',
              Tag ''reason'' [leaf ''type'' ''local_policy'', leaf ''dkim'' ''pass'', leaf ''spf'' ''pass'']]) \<and>
   DMARCRecord_init (\<lambda>a. Herror) no_resolver
     (example_record
        [Tag ''reason'' [leaf ''type'' ''local_policy'', leaf ''dkim'' ''pass'', leaf ''spf'' ''pass'']]
        ''5'' []) =
   Inr (\<lparr>ip = ''192.0.2.1'', host = None, disposition = ''none'', reason = Some ''local_policy'',
         spf_pass = Some True, dkim_pass = Some True, header_from = Some ''example.com'',
         envelope_from = None, count = 5, spf_results = [], dkim_signatures = []\<rparr>,
        \<lparr>rdns_records = Map.empty, lookups = [''192.0.2.1'']\<rparr>)"
proof (intro conjI)
  show "\<not> spec_has_child ''dkim''
       (Tag ''policy_evaluated''
             [leaf ''disposition'' ''none'',
              Tag ''reason'' [leaf ''type'' ''local_policy'', leaf ''dkim'' ''pass'', leaf ''spf'' ''pass'']])"
    by (simp add: spec_has_child_def leaf_def)
qed (rule example_policy, rule example_nested_flags)

text \<open>
  A record element without any \<^verbatim>\<open>dkim\<close> element below
  \<^verbatim>\<open>policy_evaluated\<close>: the flag is \<^verbatim>\<open>False\<close>.
\<close>

theorem dkim_pass_defined_witness:
  "\<exists>pe. policy_evaluated
          (example_record [leaf ''spf'' ''pass''] ''5''
             [example_dkim ''example.com'' ''none'', example_dkim ''not.evaluated'' ''pass'',
              example_dkim ''not.evaluated'' ''neutral'', example_dkim ''example.org'' ''pass''])
          = Some pe \<and>
        find ''dkim'' pe = None \<and>
        Some False = (case find ''dkim'' pe of None \<Rightarrow> Some False | Some t \<Rightarrow> Some (get_text t = ''pass''))"
proof -
  from dkim_pass_defined[OF example_mixed_dkim] obtain pe where
    pe: "policy_evaluated
          (example_record [leaf ''spf'' ''pass''] ''5''
             [example_dkim ''example.com'' ''none'', example_dkim ''not.evaluated'' ''pass'',
              example_dkim ''not.evaluated'' ''neutral'', example_dkim ''example.org'' ''pass''])
          = Some pe"
    and v: "Some False = (case find ''dkim'' pe of None \<Rightarrow> Some False | Some t \<Rightarrow> Some (get_text t = ''pass''))"
    by auto
  from pe have "pe = Tag ''policy_evaluated'' [leaf ''disposition'' ''none'', leaf ''spf'' ''pass'']"
    by (simp add: example_policy)
  then have "find ''dkim'' pe = None" by (simp add: xml_eval)
  with pe v show ?thesis by blast
qed

text \<open>
  The claim C6 as the specification states it fails on a record element whose
  \<^verbatim>\<open>policy_evaluated\<close> has the children \<^verbatim>\<open>disposition\<close> and
  \<^verbatim>\<open>reason\<close> only, with an \<^verbatim>\<open>spf\<close> element reading "pass" inside
  \<^verbatim>\<open>reason\<close>: there is no spf child, and \<open>spf_pass\<close> is
  \<^verbatim>\<open>True\<close>, not \<^verbatim>\<open>None\<close>.
\<close>

theorem spf_below_reason_decides:
  "\<not> spec_has_child ''spf''
       (Tag ''policy_evaluated''
             [leaf ''disposition'' ''none'',
              Tag ''reason'' [leaf ''type'' ''local_policy'', leaf ''dkim'' ''pass'', leaf ''spf'' ''pass'']]) \<and>
   policy_evaluated
     (example_record
        [Tag ''reason'' [leaf ''type'' ''local_policy'', leaf ''dkim'' ''pass'', leaf ''spf'' ''pass'']]
        ''5'' []) =
     Some (Tag ''policy_evaluated''
             [leaf ''disposition'' ''none'',
              Tag ''reason'' [leaf ''type'' ''local_policy'', leaf ''dkim'' ''pass'', leaf ''spf'' ''pass'']]) \<and>
   DMARCRecord_init (\<lambda>a. Herror) no_resolver
     (example_record
        [Tag ''reason'' [leaf ''type'' ''local_policy'', leaf ''dkim'' ''pass'', leaf ''spf'' ''pass'']]
        ''5'' []) =
   Inr (\<lparr>ip = ''192.0.2.1'', host = None, disposition = ''none'', reason = Some ''local_policy'',
         spf_pass = Some True, dkim_pass = Some True, header_from = Some ''example.com'',
         envelope_from = None, count = 5, spf_results = [], dkim_signatures = []\<rparr>,
        \<lparr>rdns_records = Map.empty, lookups = [''192.0.2.1'']\<rparr>)"
proof (intro conjI)
  show "\<not> spec_has_child ''spf''
       (Tag ''policy_evaluated''
             [leaf ''disposition'' ''none'',
              Tag ''reason'' [leaf ''type'' ''local_policy'', leaf ''dkim'' ''pass'', leaf ''spf'' ''pass'']])"
    by (simp add: spec_has_child_def leaf_def)
qed (rule example_policy, rule example_nested_flags)

text \<open>
  A record element without any \<^verbatim>\<open>spf\<close> element below
  \<^verbatim>\<open>policy_evaluated\<close>: the flag is \<^verbatim>\<open>None\<close>.
\<close>

theorem spf_pass_undefined_witness:
  "\<exists>pe. policy_evaluated (example_record [leaf ''dkim'' ''fail''] ''0'' []) = Some pe \<and>
        find ''spf'' pe = None \<and>
        None = (case find ''spf'' pe of None \<Rightarrow> None | Some t \<Rightarrow> Some (get_text t = ''pass''))"
proof -
  from spf_pass_undefined[OF example_zero_count] obtain pe where
    pe: "policy_evaluated (example_record [leaf ''dkim'' ''fail''] ''0'' []) = Some pe"
    and v: "None = (case find ''spf'' pe of None \<Rightarrow> None | Some t \<Rightarrow> Some (get_text t = ''pass''))"
    by auto
  from pe have "pe = Tag ''policy_evaluated'' [leaf ''disposition'' ''none'', leaf ''dkim'' ''fail'']"
    by (simp add: example_policy)
  then have "find ''spf'' pe = None" by (simp add: xml_eval)
  with pe v show ?thesis by blast
qed

text \<open>
  The claim C7 as the specification states it fails on record elements whose
  \<^verbatim>\<open>policy_evaluated.spf\<close> reads "softfail" and whose construction stops
  before the check: without a \<^verbatim>\<open>disposition\<close> element, line 26 raises
  AttributeError, and with an address lookup that raises
  \<^verbatim>\<open>socket.gaierror\<close>, line 23 does. Neither is the assertion error.
\<close>

theorem policy_check_preempted:
  "policy_evaluated (example_bare_record [leaf ''spf'' ''softfail''] ''5'' []) =
     Some (Tag ''policy_evaluated'' [leaf ''spf'' ''softfail'']) \<and>
   find ''spf'' (Tag ''policy_evaluated'' [leaf ''spf'' ''softfail'']) =
     Some (leaf ''spf'' ''softfail'') \<and>
   get_text (leaf ''spf'' ''softfail'') = ''softfail'' \<and>
   DMARCRecord_init (\<lambda>a. Herror) no_resolver
     (example_bare_record [leaf ''spf'' ''softfail''] ''5'' []) = Inl AttributeError \<and>
   policy_evaluated (example_record [leaf ''spf'' ''softfail'', leaf ''dkim'' ''pass''] ''5'' []) =
     Some (Tag ''policy_evaluated''
             [leaf ''disposition'' ''none'', leaf ''spf'' ''softfail'', leaf ''dkim'' ''pass'']) \<and>
   find ''spf'' (Tag ''policy_evaluated''
             [leaf ''disposition'' ''none'', leaf ''spf'' ''softfail'', leaf ''dkim'' ''pass'']) =
     Some (leaf ''spf'' ''softfail'') \<and>
   DMARCRecord_init (\<lambda>a. Gaierror) no_resolver
     (example_record [leaf ''spf'' ''softfail'', leaf ''dkim'' ''pass''] ''5'' []) =
     Inl SocketGaierror"
proof (intro conjI)
  show "DMARCRecord_init (\<lambda>a. Herror) no_resolver
     (example_bare_record [leaf ''spf'' ''softfail''] ''5'' []) = Inl AttributeError"
    by (simp add: record_eval xml_eval)
  show "DMARCRecord_init (\<lambda>a. Gaierror) no_resolver
     (example_record [leaf ''spf'' ''softfail'', leaf ''dkim'' ''pass''] ''5'' []) =
     Inl SocketGaierror"
    by (simp add: record_eval xml_eval)
qed (simp_all add: policy_evaluated_def xml_eval)

text \<open>
  A record element whose \<^verbatim>\<open>policy_evaluated.spf\<close> reads "softfail": the
  construction raises AssertionError.
\<close>

lemma example_bad_spf_prefix:
  "find ''source_ip'' (example_record [leaf ''spf'' ''softfail'', leaf ''dkim'' ''pass''] ''5'' []) =
     Some (leaf ''source_ip'' ''192.0.2.1'')"
  "lookup_ip (\<lambda>a. Herror) no_resolver (get_text (leaf ''source_ip'' ''192.0.2.1'')) =
     Inr (None, \<lparr>rdns_records = Map.empty, lookups = [''192.0.2.1'']\<rparr>)"
  "find ''disposition'' (Tag ''policy_evaluated'' (leaf ''disposition'' ''none'' # p)) =
     Some (leaf ''disposition'' ''none'')"
  by (simp_all add: xml_eval lookup_ip_def no_resolver_def)

theorem policy_result_checked_witness:
  "DMARCRecord_init (\<lambda>a. Herror) no_resolver
     (example_record [leaf ''spf'' ''softfail'', leaf ''dkim'' ''pass''] ''5'' []) = Inl AssertionError \<and>
   find ''spf'' (Tag ''policy_evaluated'' [leaf ''disposition'' ''none'', leaf ''spf'' ''softfail'', leaf ''dkim'' ''pass''])
     = Some (leaf ''spf'' ''softfail'') \<and>
   get_text (leaf ''spf'' ''softfail'') \<notin> {''pass'', ''fail''}"
proof -
  have spf: "find ''spf'' (Tag ''policy_evaluated'' [leaf ''disposition'' ''none'', leaf ''spf'' ''softfail'', leaf ''dkim'' ''pass''])
     = Some (leaf ''spf'' ''softfail'')"
    by (simp add: xml_eval)
  have bad: "get_text (leaf ''spf'' ''softfail'') \<notin> {''pass'', ''fail''}"
    by (simp add: leaf_def)
  from policy_result_checked[OF example_bad_spf_prefix(1) example_bad_spf_prefix(2) example_policy example_bad_spf_prefix(3)]
    spf bad
  show ?thesis by blast
qed

text \<open>
  The claim C9 as the specification states it fails on record elements whose count
  reads "0" or "-3": the decoder returns a record, and its count is 0 or -3.
\<close>

theorem count_below_one:
  "DMARCRecord_init (\<lambda>a. Resolved ''mail.example.com'') no_resolver
     (example_record [leaf ''dkim'' ''fail''] ''0'' []) =
   Inr (\<lparr>ip = ''192.0.2.1'', host = Some ''mail.example.com'', disposition = ''none'',
         reason = None, spf_pass = None, dkim_pass = Some False,
         header_from = Some ''example.com'', envelope_from = None, count = 0,
         spf_results = [], dkim_signatures = []\<rparr>,
        \<lparr>rdns_records = [''192.0.2.1'' \<mapsto> ''mail.example.com''], lookups = [''192.0.2.1'']\<rparr>) \<and>
   \<not> (1::int) \<le> 0 \<and>
   DMARCRecord_init (\<lambda>a. Resolved ''mail.example.com'') no_resolver
     (example_record [leaf ''dkim'' ''fail''] ''-3'' []) =
   Inr (\<lparr>ip = ''192.0.2.1'', host = Some ''mail.example.com'', disposition = ''none'',
         reason = None, spf_pass = None, dkim_pass = Some False,
         header_from = Some ''example.com'', envelope_from = None, count = - 3,
         spf_results = [], dkim_signatures = []\<rparr>,
        \<lparr>rdns_records = [''192.0.2.1'' \<mapsto> ''mail.example.com''], lookups = [''192.0.2.1'']\<rparr>) \<and>
   \<not> (1::int) \<le> - 3"
proof (intro conjI)
qed (rule example_zero_count, simp, rule example_negative_count, simp)

text \<open>
  From the record element with count "0" to the one with count "-3": the same record,
  with count -3.
\<close>

theorem count_is_int_of_text_witness:
  "(\<exists>c. find ''count'' (example_record [leaf ''dkim'' ''fail''] ''0'' []) = Some c \<and>
        py_int (get_text c) = Inr 0) \<and>
   py_int (get_text (leaf ''count'' ''-3'')) = Inr (- 3) \<and>
   DMARCRecord_init (\<lambda>a. Resolved ''mail.example.com'') no_resolver
     (example_record [leaf ''dkim'' ''fail''] ''-3'' []) =
   Inr (\<lparr>ip = ''192.0.2.1'', host = Some ''mail.example.com'', disposition = ''none'',
         reason = None, spf_pass = None, dkim_pass = Some False,
         header_from = Some ''example.com'', envelope_from = None, count = - 3,
         spf_results = [], dkim_signatures = []\<rparr>,
        \<lparr>rdns_records = [''192.0.2.1'' \<mapsto> ''mail.example.com''], lookups = [''192.0.2.1'']\<rparr>)"
proof -
  note t = count_is_int_of_text[OF example_zero_count]
  have n: "py_int (get_text (leaf ''count'' ''-3'')) = Inr (- 3)"
    by (simp add: record_eval leaf_def)
  have pre:
    "find ''source_ip'' (example_record [leaf ''dkim'' ''fail''] ''-3'' []) =
       find ''source_ip'' (example_record [leaf ''dkim'' ''fail''] ''0'' []) \<and>
     policy_evaluated (example_record [leaf ''dkim'' ''fail''] ''-3'' []) =
       policy_evaluated (example_record [leaf ''dkim'' ''fail''] ''0'' []) \<and>
     find ''identifiers'' (example_record [leaf ''dkim'' ''fail''] ''-3'' []) =
       find ''identifiers'' (example_record [leaf ''dkim'' ''fail''] ''0'' []) \<and>
     find ''auth_results'' (example_record [leaf ''dkim'' ''fail''] ''-3'' []) =
       find ''auth_results'' (example_record [leaf ''dkim'' ''fail''] ''0'' []) \<and>
     find ''count'' (example_record [leaf ''dkim'' ''fail''] ''-3'' []) = Some (leaf ''count'' ''-3'') \<and>
     py_int (get_text (leaf ''count'' ''-3'')) = Inr (- 3)"
    using n by (simp add: example_policy) (simp add: xml_eval)
  note step = conjunct2[OF t, rule_format, OF pre]
  from conjunct1[OF t] n step show ?thesis by simp
qed

text \<open>
  The claim C1 as the specification states it fails on an entry with result "none" and
  the domain "example.com": the entry does not meet both conditions of the
  specification, which would keep it, and the decoder drops it.
\<close>

theorem dkim_real_domain_dropped:
  "dkim_entry (example_dkim ''example.com'' ''none'') =
     Inr \<lparr>dkim_result = ''none'', dkim_domain = ''example.com'', dkim_selector = None,
          dkim_human_result = None\<rparr> \<and>
   \<not> spec_dkim_excluded \<lparr>dkim_result = ''none'', dkim_domain = ''example.com'',
          dkim_selector = None, dkim_human_result = None\<rparr> \<and>
   (\<exists>rec st'. DMARCRecord_init (\<lambda>a. Herror) no_resolver
      (example_record [leaf ''spf'' ''pass''] ''5''
        [example_dkim ''example.com'' ''none'', example_dkim ''not.evaluated'' ''pass'',
         example_dkim ''not.evaluated'' ''neutral'', example_dkim ''example.org'' ''pass''])
      = Inr (rec, st') \<and>
      \<lparr>dkim_result = ''none'', dkim_domain = ''example.com'', dkim_selector = None,
          dkim_human_result = None\<rparr> \<notin> set (dkim_signatures rec))"
proof -
  have "dkim_entry (example_dkim ''example.com'' ''none'') =
     Inr \<lparr>dkim_result = ''none'', dkim_domain = ''example.com'', dkim_selector = None,
          dkim_human_result = None\<rparr>"
    by (simp add: dkim_entry_def xml_eval)
  moreover have "\<not> spec_dkim_excluded \<lparr>dkim_result = ''none'', dkim_domain = ''example.com'',
          dkim_selector = None, dkim_human_result = None\<rparr>"
    by (simp add: spec_dkim_excluded_def)
  ultimately show ?thesis
    using example_mixed_dkim by (intro conjI exI) (assumption, assumption, assumption, simp)
qed

theorem dkim_signatures_filtered_witness:
  "\<exists>auth ds. find ''auth_results'' (example_record [leaf ''spf'' ''pass''] ''5''
        [example_dkim ''example.com'' ''none'', example_dkim ''not.evaluated'' ''pass'',
         example_dkim ''not.evaluated'' ''neutral'', example_dkim ''example.org'' ''pass'']) = Some auth \<and>
     map dkim_entry (find_all ''dkim'' auth) = map Inr ds \<and>
     [\<lparr>dkim_result = ''pass'', dkim_domain = ''example.org'', dkim_selector = None,
             dkim_human_result = None\<rparr>] =
       filter (\<lambda>sig. \<not> (dkim_result sig \<in> {''none'', ''neutral''} \<or>
                               dkim_domain sig = ''not.evaluated'')) ds"
  using dkim_signatures_filtered[OF example_mixed_dkim] by simp

section \<open>The resolver and its cache\<close>




section \<open>Reports and archives on concrete inputs\<close>

lemmas report_eval = process_xml_def DMARCReport_init_def example_document_def leaf_def
  find_def find_all_def attr_def str_text_def py_int_def py_strip_def py_isspace_def
  is_digit_def digits_val_def digit_val_def int_max_str_digits_def utcfromtimestamp_def

lemma example_empty_report:
  "process_xml g st (example_document []) name =
     Inr (\<lparr>report_id = ''r1'', filename = name, receiver = ''example.net'',
           start_date = 1700000000, end_date = 1700086400, records = []\<rparr>, st)"
  by (simp add: report_eval)

lemma gz_names:
  "py_replace ''.gz'' [] ''report.xml.gz.gz'' = ''report.xml''"
  "endswith ''report.xml.gz.gz'' ''.gz''"
  "spec_gz_subfile_name ''report.xml.gz.gz'' = ''report.xml.gz''"
  "\<not> endswith (spec_gz_subfile_name ''report.xml.gz.gz'') ''.xml''"
  "last (split_on CHR ''/'' ''./reports/report.xml.gz.gz'') = ''report.xml.gz.gz''"
  by code_simp+

lemma example_names:
  "endswith (py_replace ''.gz'' [] (last (split_on CHR ''/'' ''./reports/empty.xml.gz''))) ''.xml''"
  "endswith (py_replace ''.gz'' [] (last (split_on CHR ''/'' ''./reports/good.xml.gz''))) ''.xml''"
  "last (split_on CHR ''/'' ''./reports/good.xml.gz'') = ''good.xml.gz''"
  "endswith (py_replace ''.gz'' [] (last (split_on CHR ''/'' ''./reports/a/r.xml.gz''))) ''.xml''"
  "last (split_on CHR ''/'' ''./reports/a/r.xml.gz'') = ''r.xml.gz''"
  by code_simp+

lemma bad_zip_raises:
  "parse_report list_store_save example_reports g ([], no_resolver) ''./reports'' ''bad.zip'' =
     Inl BadZipFile"
  by (simp add: parse_report_def endswith_def process_zipfile_def example_reports_def)

lemma empty_document_raises:
  "process_gzfile example_reports g st ''./reports/empty.xml.gz'' = Inl AttributeError"
  using example_names(1)
  by (simp add: process_gzfile_def example_reports_def process_xml_def DMARCReport_init_def
        find_def find_all_def attr_def)

lemma good_gz_parsed:
  "parse_report list_store_save example_reports g ([], no_resolver) ''./reports'' ''good.xml.gz'' =
     Inr (True,
          [\<lparr>report_id = ''r1'', filename = ''good.xml.gz'', receiver = ''example.net'',
            start_date = 1700000000, end_date = 1700086400, records = []\<rparr>],
          no_resolver)"
  using example_names(2)
  by (simp add: parse_report_def endswith_def process_gzfile_def example_names(3)
        example_reports_def example_empty_report list_store_save_def)

lemma notes_not_parsed:
  "parse_report list_store_save example_reports g ([], no_resolver) ''./reports'' ''notes.txt'' =
     Inr (False, [], no_resolver)"
  by (simp add: parse_report_def endswith_def)

section \<open>The ingestion driver and a file that cannot be decoded\<close>

lemma files_loop_append:
  "files_loop ex sv fs g root (xs @ ys) w =
     py_bind (files_loop ex sv fs g root xs w) (files_loop ex sv fs g root ys)"
proof (induction xs arbitrary: w)
  case Nil
  then show ?case by simp
next
  case (Cons x xs)
  obtain n k store st where w: "w = (n, k, store, st)" by (cases w) auto
  show ?case
  proof (cases "ex store x")
    case True
    with w Cons.IH show ?thesis by simp
  next
    case False
    show ?thesis
    proof (cases "parse_report sv fs g (store, st) root x")
      case (Inl e)
      with w False show ?thesis by simp
    next
      case (Inr r)
      obtain saved store' st' where r: "r = (saved, store', st')" by (cases r) auto
      with w False Inr Cons.IH show ?thesis by simp
    qed
  qed
qed

lemma walk_loop_append:
  "walk_loop ex sv fs g (xs @ ys) w =
     py_bind (walk_loop ex sv fs g xs w) (walk_loop ex sv fs g ys)"
proof (induction xs arbitrary: w)
  case Nil
  then show ?case by simp
next
  case (Cons d ds)
  obtain root files where d: "d = (root, files)" by (cases d) auto
  show ?case
    by (cases "files_loop ex sv fs g root files w") (simp_all add: d Cons.IH)
qed

lemma parse_report_unsaved:
  "parse_report sv fs g (store, st) root fname = Inr (False, store', st') \<Longrightarrow> store' = store"
  by (auto simp: parse_report_def py_bind_Inr_iff split: option.splits)

text \<open>
  C3, as amended. Take a file that the driver reaches (the directories and files before
  it were processed without an exception) and that the store does not hold yet. If
  decoding the file raises, a schema violation or an archive error alike, the exception
  leaves \<^verbatim>\<open>parse_reports_in_directory\<close> at that file: the run ends with it and
  no later file is processed. Only a file that yields no report without raising (no
  \<^verbatim>\<open>.zip\<close> or \<^verbatim>\<open>.gz\<close> name, no \<^verbatim>\<open>.xml\<close> member) leaves the
  store as it was, and then the run goes on with the next file.
\<close>

theorem decode_error_aborts_run:
  assumes "os_walk report_dir = before @ (root, pre @ fname # post) # after"
    and "walk_loop ex sv fs g before (0, 0, store0, st0) = Inr w1"
    and "files_loop ex sv fs g root pre w1 = Inr (n, k, store, st)"
    and "\<not> ex store fname"
  shows "(parse_report sv fs g (store, st) root fname = Inl e \<longrightarrow>
            parse_reports_in_directory ex sv fs g os_walk (store0, st0) report_dir = Inl e) \<and>
         (parse_report sv fs g (store, st) root fname = Inr (False, store', st') \<longrightarrow>
            store' = store \<and>
            parse_reports_in_directory ex sv fs g os_walk (store0, st0) report_dir =
              py_bind (files_loop ex sv fs g root post (n + 1, k, store, st'))
                (walk_loop ex sv fs g after))"
proof (intro conjI impI)
  assume e: "parse_report sv fs g (store, st) root fname = Inl e"
  show "parse_reports_in_directory ex sv fs g os_walk (store0, st0) report_dir = Inl e"
    using assms e
    by (simp add: parse_reports_in_directory_def walk_loop_append files_loop_append)
next
  assume r: "parse_report sv fs g (store, st) root fname = Inr (False, store', st')"
  then show s: "store' = store" by (rule parse_report_unsaved)
  show "parse_reports_in_directory ex sv fs g os_walk (store0, st0) report_dir =
              py_bind (files_loop ex sv fs g root post (n + 1, k, store, st'))
                (walk_loop ex sv fs g after)"
    using assms r s
    by (simp add: parse_reports_in_directory_def walk_loop_append files_loop_append)
qed

text \<open>
  A directory with a file that is no zip archive, then a good report: the run ends with
  BadZipFile. The same directory with a text file first: the run goes on and saves the
  report.
\<close>

theorem decode_error_aborts_run_witness:
  "parse_reports_in_directory list_store_exists list_store_save example_reports
     (\<lambda>a. Herror) (\<lambda>d. [(d, [''bad.zip'', ''good.xml.gz''])]) ([], no_resolver) ''./reports'' =
   Inl BadZipFile \<and>
   parse_reports_in_directory list_store_exists list_store_save example_reports
     (\<lambda>a. Herror) (\<lambda>d. [(d, [''notes.txt'', ''good.xml.gz''])]) ([], no_resolver) ''./reports'' =
   Inr (2, 1,
        [\<lparr>report_id = ''r1'', filename = ''good.xml.gz'', receiver = ''example.net'',
          start_date = 1700000000, end_date = 1700086400, records = []\<rparr>],
        no_resolver)"
proof
  have 1: "(\<lambda>d. [(d, [''bad.zip'', ''good.xml.gz''])]) ''./reports'' =
           [] @ (''./reports'', [] @ ''bad.zip'' # [''good.xml.gz'']) # []" by simp
  have 2: "walk_loop list_store_exists list_store_save example_reports
     (\<lambda>a. Herror) [] (0, 0, [], no_resolver) = Inr (0, 0, [], no_resolver)" by simp
  have 3: "files_loop list_store_exists list_store_save example_reports
     (\<lambda>a. Herror) ''./reports'' [] (0, 0, [], no_resolver) = Inr (0, 0, [], no_resolver)" by simp
  have 4: "\<not> list_store_exists [] ''bad.zip''" by (simp add: list_store_exists_def)
  note r0 = decode_error_aborts_run[where os_walk = "\<lambda>d. [(d, [''bad.zip'', ''good.xml.gz''])]"
      and report_dir = "''./reports''" and before = "[]" and root = "''./reports''"
      and pre = "[]" and fname = "''bad.zip''" and post = "[''good.xml.gz'']" and after = "[]"
      and e = BadZipFile]
  note r1 = r0[OF 1]
  note r2 = r1[OF 2]
  note r3 = r2[OF 3]
  note r4 = r3[OF 4]
  show "parse_reports_in_directory list_store_exists list_store_save example_reports
     (\<lambda>a. Herror) (\<lambda>d. [(d, [''bad.zip'', ''good.xml.gz''])]) ([], no_resolver) ''./reports'' =
   Inl BadZipFile"
    by (rule mp[OF conjunct1[OF r4] bad_zip_raises])
next
  have 1: "(\<lambda>d. [(d, [''notes.txt'', ''good.xml.gz''])]) ''./reports'' =
           [] @ (''./reports'', [] @ ''notes.txt'' # [''good.xml.gz'']) # []" by simp
  have 2: "walk_loop list_store_exists list_store_save example_reports
     (\<lambda>a. Herror) [] (0, 0, [], no_resolver) = Inr (0, 0, [], no_resolver)" by simp
  have 3: "files_loop list_store_exists list_store_save example_reports
     (\<lambda>a. Herror) ''./reports'' [] (0, 0, [], no_resolver) = Inr (0, 0, [], no_resolver)" by simp
  have 4: "\<not> list_store_exists [] ''notes.txt''" by (simp add: list_store_exists_def)
  note r0 = decode_error_aborts_run[where os_walk = "\<lambda>d. [(d, [''notes.txt'', ''good.xml.gz''])]"
      and report_dir = "''./reports''" and before = "[]" and root = "''./reports''"
      and pre = "[]" and fname = "''notes.txt''" and post = "[''good.xml.gz'']" and after = "[]"
      and store' = "[]" and st' = no_resolver]
  note r1 = r0[OF 1]
  note r2 = r1[OF 2]
  note r3 = r2[OF 3]
  note r4 = r3[OF 4]
  note run = conjunct2[OF mp[OF conjunct2[OF r4] notes_not_parsed]]
  have 5: "\<not> list_store_exists [] ''good.xml.gz''" by (simp add: list_store_exists_def)
  have "py_bind (files_loop list_store_exists list_store_save example_reports (\<lambda>a. Herror)
                   ''./reports'' [''good.xml.gz''] (0 + 1, 0, [], no_resolver))
          (walk_loop list_store_exists list_store_save example_reports (\<lambda>a. Herror) []) =
        Inr (2, 1,
        [\<lparr>report_id = ''r1'', filename = ''good.xml.gz'', receiver = ''example.net'',
          start_date = 1700000000, end_date = 1700086400, records = []\<rparr>],
        no_resolver)"
    using 5 by (simp add: good_gz_parsed)
  with run show "parse_reports_in_directory list_store_exists list_store_save example_reports
     (\<lambda>a. Herror) (\<lambda>d. [(d, [''notes.txt'', ''good.xml.gz''])]) ([], no_resolver) ''./reports'' =
   Inr (2, 1,
        [\<lparr>report_id = ''r1'', filename = ''good.xml.gz'', receiver = ''example.net'',
          start_date = 1700000000, end_date = 1700086400, records = []\<rparr>],
        no_resolver)"
    by (rule trans)
qed

text \<open>
  The claim C3 as the specification states it fails on a directory whose first file is
  no zip archive, and on one whose first file is a gzip file with an empty document (a
  schema violation: \<^verbatim>\<open>report_metadata\<close> is missing): the run ends with the
  exception, and the good report after the file is never read.
\<close>

theorem bad_file_stops_ingestion:
  "parse_reports_in_directory list_store_exists list_store_save example_reports
     (\<lambda>a. Herror) (\<lambda>d. [(d, [''bad.zip'', ''good.xml.gz''])]) ([], no_resolver) ''./reports'' =
   Inl BadZipFile \<and>
   parse_reports_in_directory list_store_exists list_store_save example_reports
     (\<lambda>a. Herror) (\<lambda>d. [(d, [''empty.xml.gz'', ''good.xml.gz''])]) ([], no_resolver) ''./reports'' =
   Inl AttributeError"
proof
  have "parse_report list_store_save example_reports (\<lambda>a. Herror) ([], no_resolver) ''./reports'' ''bad.zip'' =
     Inl BadZipFile"
    by (rule bad_zip_raises)
  then show "parse_reports_in_directory list_store_exists list_store_save example_reports
     (\<lambda>a. Herror) (\<lambda>d. [(d, [''bad.zip'', ''good.xml.gz''])]) ([], no_resolver) ''./reports'' =
   Inl BadZipFile"
    by (simp add: parse_reports_in_directory_def list_store_exists_def)
  have "parse_report list_store_save example_reports (\<lambda>a. Herror) ([], no_resolver) ''./reports'' ''empty.xml.gz'' =
     Inl AttributeError"
    by (simp add: parse_report_def endswith_def empty_document_raises)
  then show "parse_reports_in_directory list_store_exists list_store_save example_reports
     (\<lambda>a. Herror) (\<lambda>d. [(d, [''empty.xml.gz'', ''good.xml.gz''])]) ([], no_resolver) ''./reports'' =
   Inl AttributeError"
    by (simp add: parse_reports_in_directory_def list_store_exists_def)
qed

section \<open>The name test of a gzip file\<close>

text \<open>
  C8. The source removes every occurrence of \<^verbatim>\<open>.gz\<close> from the archive name
  (line 121) where its comment, and the specification, speak of the name without its
  \<^verbatim>\<open>.gz\<close> suffix. On the name \<^verbatim>\<open>report.xml.gz.gz\<close> the two differ:
  the name without its suffix, \<^verbatim>\<open>report.xml.gz\<close>, does not end in
  \<^verbatim>\<open>.xml\<close>, so the claim has the extraction return none, and the source
  decodes the file.
\<close>

theorem gz_inner_suffix_removed:
  "endswith ''report.xml.gz.gz'' ''.gz'' \<and>
   spec_gz_subfile_name ''report.xml.gz.gz'' = ''report.xml.gz'' \<and>
   \<not> endswith (spec_gz_subfile_name ''report.xml.gz.gz'') ''.xml'' \<and>
   py_replace ''.gz'' [] ''report.xml.gz.gz'' = ''report.xml'' \<and>
   process_gzfile [''./reports/report.xml.gz.gz'' \<mapsto> GzipFile (example_document [])]
       (\<lambda>a. Herror) no_resolver ''./reports/report.xml.gz.gz'' =
     Inr (Some \<lparr>report_id = ''r1'', filename = ''report.xml.gz.gz'', receiver = ''example.net'',
                start_date = 1700000000, end_date = 1700086400, records = []\<rparr>, no_resolver)"
proof (intro conjI)
  show "endswith ''report.xml.gz.gz'' ''.gz''" by (rule gz_names(2))
  show "spec_gz_subfile_name ''report.xml.gz.gz'' = ''report.xml.gz''" by (rule gz_names(3))
  show "\<not> endswith (spec_gz_subfile_name ''report.xml.gz.gz'') ''.xml''" by (rule gz_names(4))
  show "py_replace ''.gz'' [] ''report.xml.gz.gz'' = ''report.xml''" by (rule gz_names(1))
  have "endswith ''report.xml'' ''.xml''" by (simp add: endswith_def)
  then show "process_gzfile [''./reports/report.xml.gz.gz'' \<mapsto> GzipFile (example_document [])]
       (\<lambda>a. Herror) no_resolver ''./reports/report.xml.gz.gz'' =
     Inr (Some \<lparr>report_id = ''r1'', filename = ''report.xml.gz.gz'', receiver = ''example.net'',
                start_date = 1700000000, end_date = 1700086400, records = []\<rparr>, no_resolver)"
    by (simp add: process_gzfile_def gz_names(1,5) example_empty_report)
qed

section \<open>The file name of a report\<close>
















section \<open>Saving and then loading the resolver cache\<close>

text \<open>
  What loading returns after a save that succeeded: what \<^verbatim>\<open>pickle.load\<close> makes
  of the saved bytes read through a file opened as text. And loading where the path
  holds no file returns the empty cache.
\<close>

lemma load_after_save:
  assumes "save_rdns_records pickle_dump files m rdns_filename rdns_directory = Inr files'"
  shows "load_rdns_records pickle_load files' rdns_filename rdns_directory =
           pickle_load (TextMode (pickle_dump m))"
  using assms
  by (auto simp: save_rdns_records_def load_rdns_records_def Let_def py_bind_Inr_iff
        write_file_def os_makedirs_def os_path_isfile_def
      split: if_splits option.splits node.splits)

lemma load_without_file:
  "\<not> os_path_isfile files (os_path_join rdns_directory rdns_filename) \<Longrightarrow>
     load_rdns_records pickle_load files rdns_filename rdns_directory = Inr Map.empty"
  by (simp add: load_rdns_records_def)

text \<open>
  C4. The cache with the one entry for 192.0.2.1, saved to the default path of an empty
  file system and loaded from there: the save writes the file, and the load raises
  instead of returning the cache, because line 169 opens the file as text where line
  161 wrote it in binary mode. Read in binary mode, the file gives the cache back.
  Loading from the empty file system returns the empty cache.
\<close>

theorem saved_cache_not_loaded:
  "save_rdns_records py3_pickle_dump Map.empty [''192.0.2.1'' \<mapsto> ''mail.example.com'']
       ''rdns.pickle'' ''./results'' =
     Inr [''./results'' \<mapsto> Dir,
          ''./results/rdns.pickle'' \<mapsto> File (py3_pickle_dump [''192.0.2.1'' \<mapsto> ''mail.example.com''])] \<and>
   load_rdns_records py3_pickle_load
       [''./results'' \<mapsto> Dir,
        ''./results/rdns.pickle'' \<mapsto> File (py3_pickle_dump [''192.0.2.1'' \<mapsto> ''mail.example.com''])]
       ''rdns.pickle'' ''./results'' =
     Inl UnicodeDecodeError \<and>
   py3_pickle_load (BinaryMode (py3_pickle_dump [''192.0.2.1'' \<mapsto> ''mail.example.com''])) =
     Inr [''192.0.2.1'' \<mapsto> ''mail.example.com''] \<and>
   load_rdns_records py3_pickle_load Map.empty ''rdns.pickle'' ''./results'' = Inr Map.empty"
proof (intro conjI)
  have path: "os_path_join ''./results'' ''rdns.pickle'' = ''./results/rdns.pickle''"
    by (simp add: os_path_join_def startswith_def endswith_def)
  show saved: "save_rdns_records py3_pickle_dump Map.empty [''192.0.2.1'' \<mapsto> ''mail.example.com'']
       ''rdns.pickle'' ''./results'' =
     Inr [''./results'' \<mapsto> Dir,
          ''./results/rdns.pickle'' \<mapsto> File (py3_pickle_dump [''192.0.2.1'' \<mapsto> ''mail.example.com''])]"
    by (simp add: save_rdns_records_def path os_path_exists_def os_makedirs_def write_file_def)
  show "load_rdns_records py3_pickle_load
       [''./results'' \<mapsto> Dir,
        ''./results/rdns.pickle'' \<mapsto> File (py3_pickle_dump [''192.0.2.1'' \<mapsto> ''mail.example.com''])]
       ''rdns.pickle'' ''./results'' =
     Inl UnicodeDecodeError"
    by (simp add: load_after_save[OF saved] py3_pickle_load_def)
  show "py3_pickle_load (BinaryMode (py3_pickle_dump [''192.0.2.1'' \<mapsto> ''mail.example.com''])) =
     Inr [''192.0.2.1'' \<mapsto> ''mail.example.com'']"
    by (simp add: py3_pickle_load_def py3_pickle_dump_def)
  show "load_rdns_records py3_pickle_load Map.empty ''rdns.pickle'' ''./results'' = Inr Map.empty"
    by (simp add: load_without_file os_path_isfile_def)
qed

end
